theory Spec2Isabelle
  imports Complex_Main "HOL-Library.Sublist"
begin

section \<open>Strings and the text cleaner\<close>

text \<open>
  A JavaScript string is modelled as a HOL \<open>string\<close>. The regular expressions of
  \<open>cleanText\<close> only look at the ASCII characters \<open>&\<close>, \<open>;\<close>, \<open><\<close>, \<open>>\<close> and the
  letters of the four entity names; every other character is copied.
\<close>

definition dquote :: string where
  "dquote = [CHR 0x22]"

definition newline :: string where
  "newline = [CHR 0x0A]"

text \<open>
  \<open>s.replace(/pat/g, rep)\<close> for a pattern without metacharacters: the matches are found
  from left to right, they do not overlap, and the search goes on after the end of each
  match (the replacement is never searched again).
\<close>

function replaceAll :: "string \<Rightarrow> string \<Rightarrow> string \<Rightarrow> string" where
  "replaceAll pat rep [] = []"
| "replaceAll pat rep (c # cs) =
     (if pat \<noteq> [] \<and> take (length pat) (c # cs) = pat
      then rep @ replaceAll pat rep (drop (length pat) (c # cs))
      else c # replaceAll pat rep cs)"
  by pat_completeness auto
termination
  by (relation "measure (\<lambda>(pat, rep, s). length s)") auto

text \<open>
  One match of \<open><[^>]*>?\<close> that starts at a \<open><\<close>: the class \<open>[^>]\<close> takes every
  character up to the next \<open>>\<close> (line breaks too) or up to the end of the string, and the
  \<open>>\<close>, when there is one, is taken with it. \<open>afterTag cs\<close> is what is left of the text
  \<open>cs\<close> behind the \<open><\<close> once the match is removed.
\<close>

definition afterTag :: "string \<Rightarrow> string" where
  "afterTag cs =
     (case dropWhile (\<lambda>c. c \<noteq> CHR ''>'') cs of
        [] \<Rightarrow> []
      | gt # rest \<Rightarrow> rest)"

lemma length_afterTag: "length (afterTag cs) \<le> length cs"
proof -
  have "length (afterTag cs) \<le> length (dropWhile (\<lambda>c. c \<noteq> CHR ''>'') cs)"
    by (simp add: afterTag_def split: list.split)
  also have "\<dots> \<le> length cs"
    by (rule length_dropWhile_le)
  finally show ?thesis .
qed

text \<open>\<open>s.replace(/<[^>]*>?/gm, '')\<close>: every match is removed, from left to right.\<close>

function stripTags :: "string \<Rightarrow> string" where
  "stripTags [] = []"
| "stripTags (c # cs) =
     (if c = CHR ''<'' then stripTags (afterTag cs) else c # stripTags cs)"
  by pat_completeness auto
termination
  by (relation "measure length") (auto simp: length_afterTag less_Suc_eq_le)

text \<open>
  The four entity replacements of \<open>cleanText\<close>, in the order of the source: \<open>&gt;\<close>,
  \<open>&lt;\<close>, \<open>&amp;\<close>, \<open>&quot;\<close>.
\<close>

definition decodeEntities :: "string \<Rightarrow> string" where
  "decodeEntities t =
     replaceAll ''&quot;'' dquote
       (replaceAll ''&amp;'' ''&''
         (replaceAll ''&lt;'' ''<''
           (replaceAll ''&gt;'' ''>'' t)))"

text \<open>
  \<open>cleanText(text)\<close>: \<open>None\<close> is \<open>undefined\<close>; \<open>!text\<close> also holds for the empty
  string.
\<close>

definition cleanText :: "string option \<Rightarrow> string" where
  "cleanText text' =
     (case text' of
        None \<Rightarrow> []
      | Some t \<Rightarrow> if t = [] then [] else stripTags (decodeEntities t))"

text \<open>
  The vocabulary of the claims about \<open>cleanText\<close>: a text contains an entity when one
  of the four entity names occurs in it, and a tag when a \<open><\<close> is followed, anywhere
  later, by a \<open>>\<close> (it is enough to look behind the first \<open><\<close>).
\<close>

definition entities :: "string list" where
  "entities = [''&gt;'', ''&lt;'', ''&amp;'', ''&quot;'']"

definition hasEntity :: "string \<Rightarrow> bool" where
  "hasEntity t = list_ex (\<lambda>e. sublist e t) entities"

definition hasTag :: "string \<Rightarrow> bool" where
  "hasTag t = (CHR ''>'' \<in> set (dropWhile (\<lambda>c. c \<noteq> CHR ''<'') t))"

section \<open>Data model\<close>

text \<open>
  A JavaScript \<open>number\<close> that arrives in a JSON document is a finite double, hence a
  rational; \<open>NaN\<close>, which the dispatcher uses for "not a number", is \<open>None\<close> of
  \<open>number option\<close>. The comparisons of the dispatcher and the truncation inside
  \<open>slice\<close> are exact on doubles. The subtraction \<open>storyIndex - 1\<close> is exact from
  \<open>1/2\<close> upwards; below, the double is negative like the rational, and the array read
  that follows is \<open>undefined\<close> for both.
\<close>

type_synonym number = rat

text \<open>
  The object the item endpoint serves. The interfaces \<open>Story\<close> and \<open>Comment\<close> of the
  source are two views of it (the casts \<open>as Story\<close> and \<open>comment is Comment\<close> check
  nothing): a \<open>Comment\<close> is read through \<open>id\<close>, \<open>by\<close>, \<open>time\<close>, \<open>text\<close>, \<open>kids\<close>.
  An optional field is an \<open>option\<close>, with \<open>None\<close> for \<open>undefined\<close>.
\<close>

record Item =
  id_i :: number
  title_i :: string
  by_i :: string
  time_i :: number
  url_i :: "string option"
  score_i :: number
  kids_i :: "number list option"
  text_i :: "string option"
  type_i :: string

type_synonym Story = Item
type_synonym Comment = Item

record FormattedStory =
  id_fs :: number
  title_fs :: string
  by_fs :: string
  time_fs :: string
  url_fs :: "string option"
  score_fs :: number
  commentsCount_fs :: nat
  text_fs :: "string option"

record FormattedComment =
  id_fc :: number
  by_fc :: string
  time_fc :: string
  text_fc :: string
  replies_fc :: nat

text \<open>
  What the code takes from the JavaScript runtime: the rendering of a date in the
  process's locale (\<open>new Date(ms).toLocaleString()\<close>) and the conversion of a number to
  a string inside a template literal. Both are parameters of the model.
\<close>

record runtime =
  toLocaleString :: "number \<Rightarrow> string"
  numberToString :: "number \<Rightarrow> string"

text \<open>A thrown value: \<open>new Error(message)\<close>, or the runtime's \<open>TypeError\<close>.\<close>

datatype error = Error string | TypeError string

section \<open>Upstream client\<close>

text \<open>
  The four endpoints under \<open>baseUrl\<close>. \<open>axios.get\<close> either rejects (\<open>Inl\<close>) or
  resolves with \<open>response.data\<close> (\<open>Inr\<close>); a body of \<open>null\<close> is \<open>None\<close>. Every
  client function also returns the GET requests it has issued, in the order of issue.
\<close>

datatype http_get = Newstories | Topstories | Beststories | ItemGet number

record upstream =
  newstories_json :: "error + number list option"
  topstories_json :: "error + number list option"
  beststories_json :: "error + number list option"
  item_json :: "number \<Rightarrow> error + Item option"

type_synonym 'a fetched = "(error + 'a) \<times> http_get list"

definition getItemDetails :: "upstream \<Rightarrow> number \<Rightarrow> Item option fetched" where
  "getItemDetails up itemId =
     (case item_json up itemId of
        Inr data \<Rightarrow> Inr data
      | Inl e \<Rightarrow> Inr None,
      [ItemGet itemId])"

text \<open>\<open>Promise.all\<close>: rejected as soon as one of the promises is.\<close>

fun promise_all :: "(error + 'a) list \<Rightarrow> error + 'a list" where
  "promise_all [] = Inr []"
| "promise_all (p # ps) =
     (case p of
        Inl e \<Rightarrow> Inl e
      | Inr v \<Rightarrow> (case promise_all ps of Inl e \<Rightarrow> Inl e | Inr vs \<Rightarrow> Inr (v # vs)))"

text \<open>
  \<open>ToIntegerOrInfinity\<close> of a finite number truncates towards zero; \<open>xs.slice(0, end)\<close>
  counts a negative \<open>end\<close> from the end of the array and clamps the result to the array.
\<close>

definition toInteger :: "number \<Rightarrow> int" where
  "toInteger q = (if q < 0 then \<lceil>q\<rceil> else \<lfloor>q\<rfloor>)"

definition slice :: "'a list \<Rightarrow> number \<Rightarrow> 'a list" where
  "slice xs end' =
     (let len = int (length xs);
          relativeEnd = toInteger end';
          final = (if relativeEnd < 0 then max (len + relativeEnd) 0 else min relativeEnd len)
      in take (nat final) xs)"

text \<open>The filter \<open>story !== null && story.type === 'story'\<close>.\<close>

definition storiesOnly :: "Item option list \<Rightarrow> Story list" where
  "storiesOnly stories =
     List.map_filter
       (\<lambda>story. case story of
                  None \<Rightarrow> None
                | Some s \<Rightarrow> if type_i s = ''story'' then Some s else None)
       stories"

text \<open>
  The body that \<open>getLatestStories\<close>, \<open>getTopStories\<close> and \<open>getBestStories\<close> share
  word for word; they differ in the endpoint only. The parameter \<open>limit\<close> defaults to 50
  when the caller passes none, \<open>response.data || []\<close> turns a \<open>null\<close> body into the
  empty list, the map issues one \<open>getItemDetails\<close> per id of the slice, and the
  \<open>catch\<close> turns every rejection inside the \<open>try\<close> into the empty list.
\<close>

definition listFetch :: "upstream \<Rightarrow> error + number list option \<Rightarrow> http_get \<Rightarrow> number option
    \<Rightarrow> Story list fetched" where
  "listFetch up response endpoint limit' =
     (let limit = (case limit' of None \<Rightarrow> 50 | Some l \<Rightarrow> l)
      in case response of
           Inl e \<Rightarrow> (Inr [], [endpoint])
         | Inr data \<Rightarrow>
             (let storyIds = (case data of None \<Rightarrow> [] | Some ids \<Rightarrow> ids);
                  storyPromises = map (getItemDetails up) (slice storyIds limit)
              in (case promise_all (map fst storyPromises) of
                    Inl e \<Rightarrow> Inr []
                  | Inr stories \<Rightarrow> Inr (storiesOnly stories),
                  endpoint # concat (map snd storyPromises))))"

definition getLatestStories :: "upstream \<Rightarrow> number option \<Rightarrow> Story list fetched" where
  "getLatestStories up limit' = listFetch up (newstories_json up) Newstories limit'"

definition getTopStories :: "upstream \<Rightarrow> number option \<Rightarrow> Story list fetched" where
  "getTopStories up limit' = listFetch up (topstories_json up) Topstories limit'"

definition getBestStories :: "upstream \<Rightarrow> number option \<Rightarrow> Story list fetched" where
  "getBestStories up limit' = listFetch up (beststories_json up) Beststories limit'"

text \<open>
  \<open>getComments(commentIds)\<close>: \<open>None\<close> is a missing argument; the parameter's default
  \<open>[]\<close> and the guard give the empty list before any request.
\<close>

definition getComments :: "upstream \<Rightarrow> number list option \<Rightarrow> Comment list fetched" where
  "getComments up commentIds' =
     (let commentIds = (case commentIds' of None \<Rightarrow> [] | Some ids \<Rightarrow> ids)
      in if commentIds = [] then (Inr [], [])
         else
           (let commentPromises = map (getItemDetails up) commentIds
            in (case promise_all (map fst commentPromises) of
                  Inl e \<Rightarrow> Inr []
                | Inr comments \<Rightarrow> Inr (List.map_filter (\<lambda>comment. comment) comments),
                concat (map snd commentPromises))))"

definition formatTime :: "runtime \<Rightarrow> number \<Rightarrow> string" where
  "formatTime R timestamp = toLocaleString R (timestamp * 1000)"

section \<open>Formatter\<close>

fun join :: "string \<Rightarrow> string list \<Rightarrow> string" where
  "join sep [] = []"
| "join sep [x] = x"
| "join sep (x # y # ys) = x @ sep @ join sep (y # ys)"

definition divider :: string where
  "divider = replicate 30 (CHR ''-'')"

text \<open>\<open>story.url || 'N/A'\<close>: a missing and an empty url both give \<open>N/A\<close>.\<close>

definition urlOrNA :: "string option \<Rightarrow> string" where
  "urlOrNA u = (case u of None \<Rightarrow> ''N/A'' | Some v \<Rightarrow> if v = [] then ''N/A'' else v)"

definition storyBlock :: "runtime \<Rightarrow> nat \<times> FormattedStory \<Rightarrow> string" where
  "storyBlock R p =
     (case p of (index, story) \<Rightarrow>
        numberToString R (of_nat (index + 1)) @ ''. '' @ title_fs story @ newline @
        ''   ID: '' @ numberToString R (id_fs story) @ newline @
        ''   By: '' @ by_fs story @ newline @
        ''   Published: '' @ time_fs story @ newline @
        ''   Score: '' @ numberToString R (score_fs story) @ newline @
        ''   Comments: '' @ numberToString R (of_nat (commentsCount_fs story)) @ newline @
        ''   URL: '' @ urlOrNA (url_fs story) @ newline @
        ''   '' @ divider)"

definition formatStoriesAsText :: "runtime \<Rightarrow> FormattedStory list \<Rightarrow> string" where
  "formatStoriesAsText R stories =
     (if stories = [] then ''No stories found.''
      else join (newline @ newline) (map (storyBlock R) (enumerate 0 stories)))"

text \<open>
  \<open>formatStoryAsText\<close>: its guard \<open>!story\<close> never holds for an object, so the model
  has no branch for it; \<open>if (story.text)\<close> holds for a present, non-empty text.
\<close>

definition formatStoryAsText :: "runtime \<Rightarrow> FormattedStory \<Rightarrow> string" where
  "formatStoryAsText R story =
     (let result =
            ''Title: '' @ title_fs story @ newline @
            ''ID: '' @ numberToString R (id_fs story) @ newline @
            ''By: '' @ by_fs story @ newline @
            ''Published: '' @ time_fs story @ newline @
            ''Score: '' @ numberToString R (score_fs story) @ newline @
            ''Comments: '' @ numberToString R (of_nat (commentsCount_fs story)) @ newline @
            ''URL: '' @ urlOrNA (url_fs story)
      in case text_fs story of
           None \<Rightarrow> result
         | Some t \<Rightarrow>
             if t = [] then result
             else result @ newline @ newline @ ''Content:'' @ newline @ t)"

definition commentBlock :: "runtime \<Rightarrow> nat \<times> FormattedComment \<Rightarrow> string" where
  "commentBlock R p =
     (case p of (index, comment) \<Rightarrow>
        numberToString R (of_nat (index + 1)) @ ''. Comment by '' @ by_fc comment @
          '' at '' @ time_fc comment @ '':'' @ newline @
        ''   '' @ dquote @ text_fc comment @ dquote @ newline @
        ''   '' @ (if replies_fc comment > 0
                   then ''('' @ numberToString R (of_nat (replies_fc comment)) @ '' replies)''
                   else ''(no replies)'') @ newline @
        ''   '' @ divider)"

definition formatCommentsAsText :: "runtime \<Rightarrow> string \<Rightarrow> FormattedComment list \<Rightarrow> string" where
  "formatCommentsAsText R storyTitle comments =
     (if comments = [] then ''No comments found.''
      else
        (let header = ''Comments for '' @ dquote @ storyTitle @ dquote @ '' (Total: '' @
                      numberToString R (of_nat (length comments)) @ ''):'' @ newline;
             formattedComments =
               join (newline @ newline) (map (commentBlock R) (enumerate 0 comments))
         in header @ newline @ formattedComments))"

section \<open>Tool dispatcher\<close>

text \<open>
  The argument bag of a call is a JSON object or is missing; \<open>args?.key\<close> is
  \<open>argument args key\<close>, with \<open>None\<close> for \<open>undefined\<close>.
\<close>

datatype json = JNull | JBool bool | JNum number | JStr string
  | JArr "json list" | JObj "(string \<times> json) list"

type_synonym arguments = "(string \<rightharpoonup> json) option"

definition argument :: "arguments \<Rightarrow> string \<Rightarrow> json option" where
  "argument args key = (case args of None \<Rightarrow> None | Some m \<Rightarrow> m key)"

text \<open>
  \<open>typeof args?.key === 'number' ? args.key : NaN\<close>, with \<open>None\<close> for \<open>NaN\<close>.
\<close>

definition numberOrNaN :: "arguments \<Rightarrow> string \<Rightarrow> number option" where
  "numberOrNaN args key = (case argument args key of Some (JNum n) \<Rightarrow> Some n | _ \<Rightarrow> None)"

text \<open>
  What one call of the request handler leaves behind: the text of the content block
  it returns or the value it throws, the module variable \<open>lastStoriesList\<close> after the
  call, and the GET requests issued during the call.
\<close>

record outcome =
  reply :: "error + string"
  lastStoriesList :: "FormattedStory list"
  requests :: "http_get list"

text \<open>The object literal that the three list branches build from a story.\<close>

definition listed :: "runtime \<Rightarrow> Story \<Rightarrow> FormattedStory" where
  "listed R story =
     \<lparr>id_fs = id_i story, title_fs = title_i story, by_fs = by_i story,
      time_fs = formatTime R (time_i story), url_fs = url_i story,
      score_fs = score_i story,
      commentsCount_fs = (case kids_i story of None \<Rightarrow> 0 | Some ks \<Rightarrow> length ks),
      text_fs = None\<rparr>"

text \<open>
  The statements that the branches \<open>hn_latest\<close>, \<open>hn_top\<close> and \<open>hn_best\<close> share once
  the fetch has been awaited: the map, the assignment to \<open>lastStoriesList\<close>, the reply.
  A rejected fetch would leave the handler before the assignment.
\<close>

definition listReply :: "runtime \<Rightarrow> FormattedStory list \<Rightarrow> Story list fetched \<Rightarrow> outcome" where
  "listReply R slot fetched =
     (case fst fetched of
        Inl e \<Rightarrow> \<lparr>reply = Inl e, lastStoriesList = slot, requests = snd fetched\<rparr>
      | Inr stories \<Rightarrow>
          (let formattedStories = map (listed R) stories
           in \<lparr>reply = Inr (formatStoriesAsText R formattedStories),
               lastStoriesList = formattedStories,
               requests = snd fetched\<rparr>))"

text \<open>\<open>typeof args?.limit === 'number' ? args.limit : 10\<close>.\<close>

definition limitOf :: "arguments \<Rightarrow> number" where
  "limitOf args = (case argument args ''limit'' of Some (JNum n) \<Rightarrow> n | _ \<Rightarrow> 10)"

definition hn_latest :: "runtime \<Rightarrow> upstream \<Rightarrow> FormattedStory list \<Rightarrow> arguments \<Rightarrow> outcome" where
  "hn_latest R up slot args = listReply R slot (getLatestStories up (Some (limitOf args)))"

definition hn_top :: "runtime \<Rightarrow> upstream \<Rightarrow> FormattedStory list \<Rightarrow> arguments \<Rightarrow> outcome" where
  "hn_top R up slot args = listReply R slot (getTopStories up (Some (limitOf args)))"

definition hn_best :: "runtime \<Rightarrow> upstream \<Rightarrow> FormattedStory list \<Rightarrow> arguments \<Rightarrow> outcome" where
  "hn_best R up slot args = listReply R slot (getBestStories up (Some (limitOf args)))"

definition storyNotFound :: "runtime \<Rightarrow> number \<Rightarrow> error" where
  "storyNotFound R storyId = Error (''Story with ID '' @ numberToString R storyId @ '' not found'')"

definition hn_story :: "runtime \<Rightarrow> upstream \<Rightarrow> FormattedStory list \<Rightarrow> arguments \<Rightarrow> outcome" where
  "hn_story R up slot args =
     (case numberOrNaN args ''story_id'' of
        None \<Rightarrow>
          \<lparr>reply = Inl (Error ''Story ID must be a number''), lastStoriesList = slot,
           requests = []\<rparr>
      | Some storyId \<Rightarrow>
          (let fetched = getItemDetails up storyId
           in \<lparr>reply =
                  (case fst fetched of
                     Inl e \<Rightarrow> Inl e
                   | Inr None \<Rightarrow> Inl (storyNotFound R storyId)
                   | Inr (Some story) \<Rightarrow>
                       Inr (formatStoryAsText R
                              \<lparr>id_fs = id_i story, title_fs = title_i story,
                               by_fs = by_i story, time_fs = formatTime R (time_i story),
                               url_fs = url_i story, score_fs = score_i story,
                               commentsCount_fs =
                                 (case kids_i story of None \<Rightarrow> 0 | Some ks \<Rightarrow> length ks),
                               text_fs =
                                 Some (case text_i story of
                                         None \<Rightarrow> []
                                       | Some t \<Rightarrow> if t = [] then [] else cleanText (Some t))\<rparr>)),
                lastStoriesList = slot,
                requests = snd fetched\<rparr>))"

text \<open>
  \<open>xs[k]\<close> for a number \<open>k\<close>: an element when \<open>k\<close> is an integer from 0 to
  \<open>length - 1\<close>, \<open>undefined\<close> for every other number.
\<close>

definition element :: "'a list \<Rightarrow> number \<Rightarrow> 'a option" where
  "element xs k =
     (if of_int \<lfloor>k\<rfloor> = k \<and> 0 \<le> k \<and> nat \<lfloor>k\<rfloor> < length xs then Some (xs ! nat \<lfloor>k\<rfloor>)
      else None)"

text \<open>
  The resolution of the target id in \<open>hn_comments\<close>: the value of \<open>targetStoryId\<close>, or
  what is thrown on the way. Reading \<open>.id\<close> of \<open>undefined\<close> throws a \<open>TypeError\<close>. The
  check \<open>isNaN(targetStoryId)\<close> behind it never fires on a \<open>number\<close> taken from a
  \<open>FormattedStory\<close> or from a numeric argument.
\<close>

definition targetStoryId :: "FormattedStory list \<Rightarrow> arguments \<Rightarrow> error + number" where
  "targetStoryId slot args =
     (let storyId = numberOrNaN args ''story_id'';
          storyIndex = numberOrNaN args ''story_index''
      in if storyId = None \<and> storyIndex = None
         then Inl (Error ''Either a story ID or a story index is required'')
         else
           (case storyId of
              Some sid \<Rightarrow> Inr sid
            | None \<Rightarrow>
                (case storyIndex of
                   Some ix \<Rightarrow>
                     if ix > 0 \<and> ix \<le> of_nat (length slot)
                     then (case element slot (ix - 1) of
                             Some story \<Rightarrow> Inr (id_fs story)
                           | None \<Rightarrow>
                               Inl (TypeError
                                 ''Cannot read properties of undefined (reading 'id')''))
                     else Inl (Error ''Invalid story index or ID provided'')
                 | None \<Rightarrow> Inl (Error ''Invalid story index or ID provided''))))"

definition formattedComment :: "runtime \<Rightarrow> Comment \<Rightarrow> FormattedComment" where
  "formattedComment R comment =
     \<lparr>id_fc = id_i comment, by_fc = by_i comment, time_fc = formatTime R (time_i comment),
      text_fc = cleanText (text_i comment),
      replies_fc = (case kids_i comment of None \<Rightarrow> 0 | Some ks \<Rightarrow> length ks)\<rparr>"

definition noCommentsFound :: "runtime \<Rightarrow> Story \<Rightarrow> string" where
  "noCommentsFound R story =
     ''No comments found for story '' @ dquote @ title_i story @ dquote @
     '' (ID: '' @ numberToString R (id_i story) @ '')''"

definition hn_comments :: "runtime \<Rightarrow> upstream \<Rightarrow> FormattedStory list \<Rightarrow> arguments \<Rightarrow> outcome" where
  "hn_comments R up slot args =
     (case targetStoryId slot args of
        Inl e \<Rightarrow> \<lparr>reply = Inl e, lastStoriesList = slot, requests = []\<rparr>
      | Inr target \<Rightarrow>
          (let fetched = getItemDetails up target
           in case fst fetched of
                Inl e \<Rightarrow> \<lparr>reply = Inl e, lastStoriesList = slot, requests = snd fetched\<rparr>
              | Inr None \<Rightarrow>
                  \<lparr>reply = Inl (storyNotFound R target), lastStoriesList = slot,
                   requests = snd fetched\<rparr>
              | Inr (Some story) \<Rightarrow>
                  if kids_i story = None \<or> kids_i story = Some []
                  then \<lparr>reply = Inr (noCommentsFound R story), lastStoriesList = slot,
                        requests = snd fetched\<rparr>
                  else
                    (let children = getComments up (kids_i story)
                     in \<lparr>reply =
                            (case fst children of
                               Inl e \<Rightarrow> Inl e
                             | Inr comments \<Rightarrow>
                                 Inr (formatCommentsAsText R (title_i story)
                                        (map (formattedComment R) comments))),
                          lastStoriesList = slot,
                          requests = snd fetched @ snd children\<rparr>)))"

text \<open>
  The request handler: \<open>name\<close> and \<open>args\<close> are \<open>request.params\<close>, \<open>slot\<close> is
  \<open>lastStoriesList\<close> before the call. The \<open>catch\<close> around the branches logs the error
  and throws it again.
\<close>

definition handler :: "runtime \<Rightarrow> upstream \<Rightarrow> FormattedStory list \<Rightarrow> string \<Rightarrow> arguments \<Rightarrow> outcome" where
  "handler R up slot name args =
     (if name = ''hn_latest'' then hn_latest R up slot args
      else if name = ''hn_top'' then hn_top R up slot args
      else if name = ''hn_best'' then hn_best R up slot args
      else if name = ''hn_story'' then hn_story R up slot args
      else if name = ''hn_comments'' then hn_comments R up slot args
      else \<lparr>reply = Inl (Error (''Unknown tool: '' @ name)), lastStoriesList = slot,
            requests = []\<rparr>)"

section \<open>Vocabulary of the claims about the client and the dispatcher\<close>

text \<open>
  What a fetch of an item yields to the client: the served object, or nothing when the
  request fails or the body is \<open>null\<close>; and the same, kept only for a story.
\<close>

definition itemOf :: "upstream \<Rightarrow> number \<Rightarrow> Item option" where
  "itemOf up itemId = (case item_json up itemId of Inr data \<Rightarrow> data | Inl e \<Rightarrow> None)"

definition storyAt :: "upstream \<Rightarrow> number \<Rightarrow> Story option" where
  "storyAt up itemId =
     (case itemOf up itemId of
        None \<Rightarrow> None
      | Some s \<Rightarrow> if type_i s = ''story'' then Some s else None)"

definition kept :: "upstream \<Rightarrow> number list \<Rightarrow> number list" where
  "kept up ids = filter (\<lambda>k. storyAt up k \<noteq> None) ids"

definition kidsCount :: "Item \<Rightarrow> nat" where
  "kidsCount i = (case kids_i i of None \<Rightarrow> 0 | Some ks \<Rightarrow> length ks)"

text \<open>The id list an id-list response stands for: empty for a failure or no body.\<close>

definition idsOf :: "error + number list option \<Rightarrow> number list" where
  "idsOf response = (case response of Inr (Some ids) \<Rightarrow> ids | _ \<Rightarrow> [])"

definition listTools :: "string set" where
  "listTools = {''hn_latest'', ''hn_top'', ''hn_best''}"

definition listResponse :: "upstream \<Rightarrow> string \<Rightarrow> error + number list option" where
  "listResponse up name =
     (if name = ''hn_latest'' then newstories_json up
      else if name = ''hn_top'' then topstories_json up
      else beststories_json up)"

definition listEndpoint :: "string \<Rightarrow> http_get" where
  "listEndpoint name =
     (if name = ''hn_latest'' then Newstories
      else if name = ''hn_top'' then Topstories
      else Beststories)"

definition itemRequests :: "http_get list \<Rightarrow> number list" where
  "itemRequests gs = List.map_filter (\<lambda>g. case g of ItemGet i \<Rightarrow> Some i | _ \<Rightarrow> None) gs"

subsection \<open>Sample data\<close>

function decimal :: "nat \<Rightarrow> string" where
  "decimal n =
     (if n < 10 then [''0123456789'' ! n]
      else decimal (n div 10) @ [''0123456789'' ! (n mod 10)])"
  by pat_completeness auto
termination
  by (relation "measure (\<lambda>n. n)") auto

declare decimal.simps [simp del]

definition sampleRuntime :: runtime where
  "sampleRuntime =
     \<lparr>toLocaleString = (\<lambda>ms. ''day '' @ decimal (nat \<lfloor>ms / 86400000\<rfloor>)),
      numberToString = (\<lambda>q. if q < 0 then ''-'' @ decimal (nat \<lfloor>- q\<rfloor>) else decimal (nat \<lfloor>q\<rfloor>))\<rparr>"

definition sampleItem :: "number \<Rightarrow> string \<Rightarrow> number list option \<Rightarrow> Item" where
  "sampleItem i ty ks =
     \<lparr>id_i = i, title_i = ''Show HN'', by_i = ''pg'', time_i = 0, url_i = None,
      score_i = 7, kids_i = ks, text_i = None, type_i = ty\<rparr>"

text \<open>
  Items 1 and 3 are stories (3 has one comment, item 2), item 2 is a comment, every
  other item request fails; the best-stories request fails.
\<close>

definition sampleUpstream :: upstream where
  "sampleUpstream =
     \<lparr>newstories_json = Inr (Some [1, 2, 3]),
      topstories_json = Inr (Some [3, 2, 1, 4]),
      beststories_json = Inl (Error ''Network Error''),
      item_json =
        (\<lambda>i. if i = 1 then Inr (Some (sampleItem 1 ''story'' None))
             else if i = 2 then Inr (Some (sampleItem 2 ''comment'' None))
             else if i = 3 then Inr (Some (sampleItem 3 ''story'' (Some [2])))
             else Inl (Error ''Request failed with status code 500''))\<rparr>"

text \<open>A session slot as \<open>hn_top\<close> with limit 3 leaves it on the sample upstream.\<close>

definition sampleSlot :: "FormattedStory list" where
  "sampleSlot =
     [listed sampleRuntime (sampleItem 3 ''story'' (Some [2])),
      listed sampleRuntime (sampleItem 1 ''story'' None)]"

section \<open>Properties of the text cleaner\<close>

text \<open>\<open>hasTag\<close> says what its name says: some \<open><\<close> has a \<open>>\<close> behind it.\<close>

lemma hasTag_iff: "hasTag t \<longleftrightarrow> (\<exists>p r. t = p @ CHR ''<'' # r \<and> CHR ''>'' \<in> set r)"
proof
  assume "hasTag t"
  then have gt: "CHR ''>'' \<in> set (dropWhile (\<lambda>c. c \<noteq> CHR ''<'') t)"
    by (simp add: hasTag_def)
  then obtain x xs where dw: "dropWhile (\<lambda>c. c \<noteq> CHR ''<'') t = x # xs"
    by (cases "dropWhile (\<lambda>c. c \<noteq> CHR ''<'') t") auto
  then have "x = CHR ''<''"
    using hd_dropWhile [of "\<lambda>c. c \<noteq> CHR ''<''" t] by simp
  with gt dw have "CHR ''>'' \<in> set xs" and "t = takeWhile (\<lambda>c. c \<noteq> CHR ''<'') t @ CHR ''<'' # xs"
    using takeWhile_dropWhile_id [of "\<lambda>c. c \<noteq> CHR ''<''" t] by auto
  then show "\<exists>p r. t = p @ CHR ''<'' # r \<and> CHR ''>'' \<in> set r"
    by blast
next
  assume "\<exists>p r. t = p @ CHR ''<'' # r \<and> CHR ''>'' \<in> set r"
  then obtain p r where t: "t = p @ CHR ''<'' # r" and gt: "CHR ''>'' \<in> set r"
    by blast
  show "hasTag t"
  proof (cases "CHR ''<'' \<in> set p")
    case True
    then have "dropWhile (\<lambda>c. c \<noteq> CHR ''<'') t = dropWhile (\<lambda>c. c \<noteq> CHR ''<'') p @ CHR ''<'' # r"
      unfolding t by (simp add: dropWhile_append1)
    with gt show ?thesis by (simp add: hasTag_def)
  next
    case False
    then have "dropWhile (\<lambda>c. c \<noteq> CHR ''<'') (p @ CHR ''<'' # r) = CHR ''<'' # r"
      by (induction p) auto
    then have "dropWhile (\<lambda>c. c \<noteq> CHR ''<'') t = CHR ''<'' # r"
      by (simp only: t)
    with gt show ?thesis by (simp add: hasTag_def)
  qed
qed

lemma replaceAll_absent: "\<not> sublist pat s \<Longrightarrow> replaceAll pat rep s = s"
proof (induction pat rep s rule: replaceAll.induct)
  case (1 pat rep)
  then show ?case by simp
next
  case (2 pat rep c cs)
  have no_match: "take (length pat) (c # cs) \<noteq> pat"
  proof
    assume "take (length pat) (c # cs) = pat"
    then have "prefix pat (c # cs)" by (metis take_is_prefix)
    with 2(3) show False by blast
  qed
  have "\<not> sublist pat cs" using 2(3) by (auto simp: sublist_Cons_right)
  with 2(2) no_match show ?case by simp
qed

lemma stripTags_no_lt: "CHR ''<'' \<notin> set (stripTags s)"
  by (induction s rule: stripTags.induct) auto

lemma stripTags_plain: "CHR ''<'' \<notin> set s \<Longrightarrow> stripTags s = s"
  by (induction s) auto

lemma afterTag_no_gt: "CHR ''>'' \<notin> set cs \<Longrightarrow> afterTag cs = []"
proof -
  assume "CHR ''>'' \<notin> set cs"
  then have "dropWhile (\<lambda>c. c \<noteq> CHR ''>'') cs = []"
    by (auto simp: dropWhile_eq_Nil_conv)
  then show ?thesis unfolding afterTag_def by (simp only: list.case)
qed

lemma afterTag_append: "CHR ''>'' \<in> set cs \<Longrightarrow> afterTag (cs @ r) = afterTag cs @ r"
proof -
  assume gt: "CHR ''>'' \<in> set cs"
  then have "dropWhile (\<lambda>c. c \<noteq> CHR ''>'') cs \<noteq> []"
    by (auto simp: dropWhile_eq_Nil_conv)
  then obtain x xs where "dropWhile (\<lambda>c. c \<noteq> CHR ''>'') cs = x # xs"
    by (cases "dropWhile (\<lambda>c. c \<noteq> CHR ''>'') cs") auto
  moreover from gt have "dropWhile (\<lambda>c. c \<noteq> CHR ''>'') (cs @ r) =
      dropWhile (\<lambda>c. c \<noteq> CHR ''>'') cs @ r"
    by (simp add: dropWhile_append1)
  ultimately show ?thesis unfolding afterTag_def by (simp only: list.case append_Cons)
qed

lemma stripTags_untagged:
  "CHR ''>'' \<notin> set (dropWhile (\<lambda>c. c \<noteq> CHR ''<'') s) \<Longrightarrow>
   stripTags s = takeWhile (\<lambda>c. c \<noteq> CHR ''<'') s"
  by (induction s) (auto simp: afterTag_no_gt)

text \<open>
  A \<open><\<close> with no \<open>>\<close> behind it ends the output: the match that starts there, or an
  earlier open match, runs to the end of the string.
\<close>

lemma stripTags_unclosed:
  "CHR ''>'' \<notin> set r \<Longrightarrow> stripTags (p @ CHR ''<'' # r) = stripTags p"
proof (induction p rule: stripTags.induct)
  case 1
  then show ?case by (simp add: afterTag_no_gt)
next
  case (2 c cs)
  show ?case
  proof (cases "c = CHR ''<''")
    case False
    with 2 show ?thesis by simp
  next
    case lt: True
    show ?thesis
    proof (cases "CHR ''>'' \<in> set cs")
      case True
      then have "afterTag (cs @ CHR ''<'' # r) = afterTag cs @ CHR ''<'' # r"
        by (rule afterTag_append)
      with 2 lt show ?thesis by simp
    next
      case False
      with 2(3) have "CHR ''>'' \<notin> set (cs @ CHR ''<'' # r)" by simp
      then have "afterTag (cs @ CHR ''<'' # r) = []" by (rule afterTag_no_gt)
      moreover from False have "afterTag cs = []" by (rule afterTag_no_gt)
      ultimately show ?thesis using lt by simp
    qed
  qed
qed

lemma decodeEntities_plain: "\<not> hasEntity t \<Longrightarrow> decodeEntities t = t"
  by (simp add: hasEntity_def entities_def decodeEntities_def replaceAll_absent)

lemma hasEntity_takeWhile: "hasEntity (takeWhile P t) \<Longrightarrow> hasEntity t"
  unfolding hasEntity_def list_ex_iff
  by (meson sublist_order.order_trans sublist_takeWhile)

lemma cleanText_stripTags: "cleanText (Some t) = stripTags (decodeEntities t)"
  by (simp add: cleanText_def decodeEntities_def)

lemma cleanText_idem:
  assumes "\<not> hasEntity t" and "\<not> hasTag t"
  shows "cleanText (Some (cleanText (Some t))) = cleanText (Some t)"
proof -
  let ?p = "takeWhile (\<lambda>c. c \<noteq> CHR ''<'') t"
  have first: "cleanText (Some t) = ?p"
    using assms
    by (simp add: cleanText_stripTags decodeEntities_plain stripTags_untagged hasTag_def)
  have "\<not> hasEntity ?p" using assms(1) hasEntity_takeWhile by blast
  then have "cleanText (Some ?p) = stripTags ?p"
    by (simp add: cleanText_stripTags decodeEntities_plain)
  also have "\<dots> = ?p"
    by (rule stripTags_plain) (metis (mono_tags, lifting) set_takeWhileD)
  finally show ?thesis using first by simp
qed

text \<open>
  Claim C1, as the code has it. For the input \<open>&lt;b&gt;hi&lt;/b&gt;\<close> the claim
  expects \<open><b>hi</b>\<close>, the tags not stripped. The code decodes the entities first and
  strips tags afterwards, so the decoded tags are stripped with the others and the
  result is \<open>hi\<close>; no output of \<open>cleanText\<close> contains a \<open><\<close> at all.
\<close>

theorem cleanText_decoded_tags_stripped:
  "cleanText (Some ''&lt;b&gt;hi&lt;/b&gt;'') = ''hi'' \<and> CHR ''<'' \<notin> set (cleanText t)"
proof
  show "cleanText (Some ''&lt;b&gt;hi&lt;/b&gt;'') = ''hi''"
    by (simp add: cleanText_def decodeEntities_def afterTag_def)
  show "CHR ''<'' \<notin> set (cleanText t)"
    by (cases t) (simp_all add: cleanText_def stripTags_no_lt)
qed

text \<open>
  Claim C1, as stated, fails: the result for \<open>&lt;b&gt;hi&lt;/b&gt;\<close> is not
  \<open><b>hi</b>\<close>.
\<close>

theorem cleanText_decoded_tags_counterexample:
  "cleanText (Some ''&lt;b&gt;hi&lt;/b&gt;'') \<noteq> ''<b>hi</b>''"
  by (simp add: cleanText_def decodeEntities_def afterTag_def)

text \<open>
  Claim C8. \<open>cleanText\<close> of an absent input is the empty string; of a present input it
  is the tag strip of the four replacements \<open>&gt;\<close>, \<open>&lt;\<close>, \<open>&amp;\<close>, \<open>&quot;\<close>
  applied in this order. The order shows in the results: \<open>&amp;lt;\<close> becomes \<open>&lt;\<close>
  and stays (the \<open>&lt;\<close> pass is over), \<open>&amp;quot;\<close> becomes a double quote (the
  \<open>&quot;\<close> pass comes later), and an entity outside the four, such as \<open>&#x27;\<close>, is
  left as it is. On an input with no entity and no tag \<open>cleanText\<close> is idempotent, and
  \<open>A &amp; B <i>ok</i>\<close> gives \<open>A & B ok\<close>.
\<close>

theorem cleanText_four_entities_then_tags:
  "cleanText None = []
   \<and> cleanText (Some t) =
       stripTags
         (replaceAll ''&quot;'' dquote
           (replaceAll ''&amp;'' ''&''
             (replaceAll ''&lt;'' ''<''
               (replaceAll ''&gt;'' ''>'' t))))
   \<and> cleanText (Some ''&amp;lt;'') = ''&lt;''
   \<and> cleanText (Some ''&amp;quot;'') = dquote
   \<and> cleanText (Some ''it&#x27;s'') = ''it&#x27;s''
   \<and> (\<not> hasEntity t \<and> \<not> hasTag t \<longrightarrow>
        cleanText (Some (cleanText (Some t))) = cleanText (Some t))
   \<and> cleanText (Some (cleanText None)) = cleanText None
   \<and> cleanText (Some ''A &amp; B <i>ok</i>'') = ''A & B ok''"
proof (intro conjI impI)
  show "cleanText None = []"
    by (simp add: cleanText_def)
  show "cleanText (Some t) =
      stripTags
        (replaceAll ''&quot;'' dquote
          (replaceAll ''&amp;'' ''&''
            (replaceAll ''&lt;'' ''<''
              (replaceAll ''&gt;'' ''>'' t))))"
    by (simp add: cleanText_def decodeEntities_def)
  show "cleanText (Some ''&amp;lt;'') = ''&lt;''"
    by (simp add: cleanText_def decodeEntities_def afterTag_def)
  show "cleanText (Some ''&amp;quot;'') = dquote"
    by (simp add: cleanText_def decodeEntities_def afterTag_def dquote_def)
  show "cleanText (Some ''it&#x27;s'') = ''it&#x27;s''"
    by (simp add: cleanText_def decodeEntities_def afterTag_def)
  show "cleanText (Some (cleanText (Some t))) = cleanText (Some t)"
    if "\<not> hasEntity t \<and> \<not> hasTag t"
    using that by (simp add: cleanText_idem)
  show "cleanText (Some (cleanText None)) = cleanText None"
    by (simp add: cleanText_def)
  show "cleanText (Some ''A &amp; B <i>ok</i>'') = ''A & B ok''"
    by (simp add: cleanText_def decodeEntities_def afterTag_def)
qed

theorem cleanText_four_entities_then_tags_witness:
  "\<not> hasEntity ''1 < 2'' \<and> \<not> hasTag ''1 < 2''
   \<and> cleanText (Some (cleanText (Some ''1 < 2''))) = cleanText (Some ''1 < 2'')"
proof -
  have plain: "\<not> hasEntity ''1 < 2'' \<and> \<not> hasTag ''1 < 2''"
    by (simp add: hasEntity_def hasTag_def entities_def sublist_Cons_right)
  with cleanText_four_entities_then_tags [of "''1 < 2''"] show ?thesis
    by blast
qed

text \<open>
  Claim C10. The closing \<open>>\<close> of the tag pattern is optional. When the text, after the
  entities are decoded, has a \<open><\<close> with no \<open>>\<close> anywhere behind it, nothing from that
  \<open><\<close> to the end of the string survives: the result is the cleaned part before the
  \<open><\<close>, which is that part itself when it holds no other \<open><\<close>. So \<open>1 < 2\<close> and
  \<open>1 &lt; 2\<close> both give \<open>1\<close> followed by a space.
\<close>

theorem cleanText_unclosed_lt:
  assumes "decodeEntities t = p @ CHR ''<'' # r" and "CHR ''>'' \<notin> set r"
  shows "cleanText (Some t) = stripTags p
         \<and> (CHR ''<'' \<notin> set p \<longrightarrow> cleanText (Some t) = p)
         \<and> cleanText (Some ''1 < 2'') = ''1 ''
         \<and> cleanText (Some ''1 &lt; 2'') = ''1 ''"
proof (intro conjI impI)
  show cut: "cleanText (Some t) = stripTags p"
    using assms by (simp add: cleanText_stripTags stripTags_unclosed)
  show "cleanText (Some t) = p" if "CHR ''<'' \<notin> set p"
    using cut that by (simp add: stripTags_plain)
  show "cleanText (Some ''1 < 2'') = ''1 ''"
    by (simp add: cleanText_def decodeEntities_def afterTag_def)
  show "cleanText (Some ''1 &lt; 2'') = ''1 ''"
    by (simp add: cleanText_def decodeEntities_def afterTag_def)
qed

theorem cleanText_unclosed_lt_witness:
  "decodeEntities ''a<b>c &lt; d'' = ''a<b>c '' @ CHR ''<'' # '' d''
   \<and> CHR ''>'' \<notin> set '' d''
   \<and> cleanText (Some ''a<b>c &lt; d'') = stripTags ''a<b>c ''
   \<and> stripTags ''a<b>c '' = ''ac ''"
proof -
  have decoded: "decodeEntities ''a<b>c &lt; d'' = ''a<b>c '' @ CHR ''<'' # '' d''"
    by (simp add: decodeEntities_def)
  have open_end: "CHR ''>'' \<notin> set '' d''"
    by simp
  have "stripTags ''a<b>c '' = ''ac ''"
    by (simp add: afterTag_def)
  with cleanText_unclosed_lt [OF decoded open_end] decoded open_end show ?thesis
    by blast
qed

section \<open>Properties of the upstream client\<close>

lemma getItemDetails_eq: "getItemDetails up i = (Inr (itemOf up i), [ItemGet i])"
  by (simp add: getItemDetails_def itemOf_def split: sum.split)

lemma promise_all_Inr: "promise_all (map Inr vs) = Inr vs"
  by (induction vs) simp_all

lemma fetch_all_values:
  "promise_all (map fst (map (getItemDetails up) ids)) = Inr (map (itemOf up) ids)"
proof -
  have "map fst (map (getItemDetails up) ids) = map Inr (map (itemOf up) ids)"
    by (simp add: getItemDetails_eq)
  then show ?thesis by (simp only: promise_all_Inr)
qed

lemma fetch_all_requests:
  "concat (map snd (map (getItemDetails up) ids)) = map ItemGet ids"
  by (induction ids) (simp_all add: getItemDetails_eq)

lemma storiesOnly_map: "storiesOnly (map (itemOf up) ids) = List.map_filter (storyAt up) ids"
  by (induction ids)
    (simp_all add: storiesOnly_def List.map_filter_simps storyAt_def split: option.split)

lemma map_filter_storyAt:
  "List.map_filter (storyAt up) ids = map (\<lambda>k. the (storyAt up k)) (kept up ids)"
  by (simp add: List.map_filter_def kept_def)

lemma listFetch_eq:
  "listFetch up response endpoint limit' =
     (Inr (List.map_filter (storyAt up)
             (slice (idsOf response) (case limit' of None \<Rightarrow> 50 | Some l \<Rightarrow> l))),
      endpoint # map ItemGet (slice (idsOf response) (case limit' of None \<Rightarrow> 50 | Some l \<Rightarrow> l)))"
proof (cases response)
  case (Inl e)
  then show ?thesis
    by (simp add: listFetch_def idsOf_def slice_def List.map_filter_simps)
next
  case (Inr data)
  have ids: "(case data of None \<Rightarrow> [] | Some ids \<Rightarrow> ids) = idsOf response"
    using Inr by (simp add: idsOf_def split: option.split)
  show ?thesis
    unfolding listFetch_def Let_def Inr sum.case option.case ids fetch_all_values
      fetch_all_requests storiesOnly_map
    by simp
qed

lemma toInteger_of_int: "toInteger (of_int z) = z"
  by (simp add: toInteger_def)

lemma slice_of_nat: "slice xs (of_nat n) = take n xs"
  by (simp add: slice_def toInteger_def Let_def min_def take_all)

lemma slice_eq:
  "slice xs q =
     (if 0 \<le> toInteger q then take (nat (toInteger q)) xs
      else take (length xs - nat (- toInteger q)) xs)"
proof (cases "0 \<le> toInteger q")
  case True
  then show ?thesis
    by (simp add: slice_def Let_def min_def take_all)
next
  case False
  then have "nat (max (int (length xs) + toInteger q) 0) = length xs - nat (- toInteger q)"
    by linarith
  with False show ?thesis
    by (simp add: slice_def Let_def)
qed

section \<open>Properties of the list tools\<close>

text \<open>
  What a call of \<open>hn_latest\<close>, \<open>hn_top\<close> or \<open>hn_best\<close> does, in one equation: the
  ids fetched are the slice of the id list, the stories among the fetched items are
  formatted in that order, stored in \<open>lastStoriesList\<close> and rendered.
\<close>

lemma list_tool_outcome:
  assumes "name \<in> listTools"
  shows "handler R up slot name args =
     \<lparr>reply = Inr (formatStoriesAsText R
                (map (listed R)
                  (List.map_filter (storyAt up)
                    (slice (idsOf (listResponse up name)) (limitOf args))))),
      lastStoriesList =
        map (listed R)
          (List.map_filter (storyAt up)
            (slice (idsOf (listResponse up name)) (limitOf args))),
      requests =
        listEndpoint name # map ItemGet (slice (idsOf (listResponse up name)) (limitOf args))\<rparr>"
proof -
  from assms consider "name = ''hn_latest''" | "name = ''hn_top''" | "name = ''hn_best''"
    by (auto simp: listTools_def)
  then show ?thesis
  proof cases
    case 1
    then show ?thesis
      by (simp add: handler_def hn_latest_def getLatestStories_def listFetch_eq listReply_def
          listResponse_def listEndpoint_def Let_def)
  next
    case 2
    then show ?thesis
      by (simp add: handler_def hn_top_def getTopStories_def listFetch_eq listReply_def
          listResponse_def listEndpoint_def Let_def)
  next
    case 3
    then show ?thesis
      by (simp add: handler_def hn_best_def getBestStories_def listFetch_eq listReply_def
          listResponse_def listEndpoint_def Let_def)
  qed
qed

lemma limitOf_number: "argument args ''limit'' = Some (JNum q) \<Longrightarrow> limitOf args = q"
  by (simp add: limitOf_def)

lemma commentsCount_listed: "commentsCount_fs (listed R s) = kidsCount s"
  by (simp add: listed_def kidsCount_def)

lemma itemRequests_list: "itemRequests (listEndpoint name # map ItemGet ids) = ids"
proof -
  have "itemRequests (map ItemGet ids) = ids"
    by (induction ids) (simp_all add: itemRequests_def List.map_filter_simps)
  then show ?thesis
    by (simp add: itemRequests_def List.map_filter_simps listEndpoint_def)
qed

lemma subseq_kept_take: "subseq (kept up (take n ids)) ids"
proof -
  have "subseq (kept up (take n ids)) (take n ids)"
    by (simp add: kept_def)
  moreover have "subseq (take n ids) ids"
    by (metis append_take_drop_id list_emb_append_mono list_emb_Nil subseq_order.order_refl append_Nil2)
  ultimately show ?thesis
    using subseq_order.order_trans by blast
qed

lemma length_kept: "length (kept up (take n ids)) \<le> n"
proof -
  have "length (kept up (take n ids)) \<le> length (take n ids)"
    unfolding kept_def by (rule length_filter_le)
  also have "\<dots> \<le> n" by simp
  finally show ?thesis .
qed

text \<open>
  Claim C2. A list tool called with a limit \<open>n\<close>, a non-negative integer of at most 50,
  returns at most \<open>n\<close> story records. The records are those of \<open>kept\<close>, the ids among
  the first \<open>n\<close> of the upstream id list whose fetch yields a story, in the order of the
  id list (\<open>kept\<close> is a subsequence of it): an id whose fetch fails, yields nothing or
  yields an item of another type is dropped and the others keep their order. The
  \<open>commentsCount\<close> of every record is the length of the \<open>kids\<close> of its story, or 0
  when \<open>kids\<close> is absent. A failed or empty id-list response stands for the empty id
  list, hence gives no records. The reply is the rendering of the records.
\<close>

theorem list_tool_records:
  assumes "name \<in> listTools"
    and "argument args ''limit'' = Some (JNum (of_nat n))"
    and "n \<le> 50"
  shows "length (lastStoriesList (handler R up slot name args)) \<le> n
    \<and> lastStoriesList (handler R up slot name args) =
        map (\<lambda>k. listed R (the (storyAt up k))) (kept up (take n (idsOf (listResponse up name))))
    \<and> subseq (kept up (take n (idsOf (listResponse up name)))) (idsOf (listResponse up name))
    \<and> map commentsCount_fs (lastStoriesList (handler R up slot name args)) =
        map (\<lambda>k. kidsCount (the (storyAt up k))) (kept up (take n (idsOf (listResponse up name))))
    \<and> reply (handler R up slot name args) =
        Inr (formatStoriesAsText R (lastStoriesList (handler R up slot name args)))"
proof -
  let ?ks = "kept up (take n (idsOf (listResponse up name)))"
  have limit: "limitOf args = of_nat n"
    using assms(2) by (rule limitOf_number)
  have stored: "lastStoriesList (handler R up slot name args) =
      map (\<lambda>k. listed R (the (storyAt up k))) ?ks"
    by (simp add: list_tool_outcome [OF assms(1)] limit slice_of_nat map_filter_storyAt)
  have "length (lastStoriesList (handler R up slot name args)) \<le> n"
    by (simp add: stored length_kept)
  moreover have "map commentsCount_fs (lastStoriesList (handler R up slot name args)) =
      map (\<lambda>k. kidsCount (the (storyAt up k))) ?ks"
    by (simp add: stored commentsCount_listed)
  moreover have "reply (handler R up slot name args) =
      Inr (formatStoriesAsText R (lastStoriesList (handler R up slot name args)))"
    by (simp add: list_tool_outcome [OF assms(1)])
  ultimately show ?thesis
    using stored subseq_kept_take by blast
qed

theorem list_tool_records_witness:
  "''hn_top'' \<in> listTools
   \<and> argument (Some [''limit'' \<mapsto> JNum 2]) ''limit'' = Some (JNum (of_nat 2))
   \<and> (2::nat) \<le> 50
   \<and> kept sampleUpstream (take 2 (idsOf (listResponse sampleUpstream ''hn_top''))) = [3]
   \<and> lastStoriesList (handler sampleRuntime sampleUpstream [] ''hn_top'' (Some [''limit'' \<mapsto> JNum 2]))
       = [listed sampleRuntime (sampleItem 3 ''story'' (Some [2]))]
   \<and> map commentsCount_fs
        (lastStoriesList (handler sampleRuntime sampleUpstream [] ''hn_top'' (Some [''limit'' \<mapsto> JNum 2])))
       = [1]"
proof -
  have tool: "''hn_top'' \<in> listTools"
    by (simp add: listTools_def)
  have arg: "argument (Some [''limit'' \<mapsto> JNum 2]) ''limit'' = Some (JNum (of_nat 2))"
    by (simp add: argument_def)
  have bound: "(2::nat) \<le> 50"
    by simp
  have ks: "kept sampleUpstream (take 2 (idsOf (listResponse sampleUpstream ''hn_top''))) = [3]"
    by (simp add: kept_def idsOf_def listResponse_def sampleUpstream_def storyAt_def itemOf_def
        sampleItem_def)
  have st: "storyAt sampleUpstream 3 = Some (sampleItem 3 ''story'' (Some [2]))"
    by (simp add: storyAt_def itemOf_def sampleUpstream_def sampleItem_def)
  have kc: "kidsCount (sampleItem 3 ''story'' (Some [2])) = 1"
    by (simp add: kidsCount_def sampleItem_def)
  note records = list_tool_records [OF tool arg bound, of sampleRuntime sampleUpstream "[]"]
  from records have "lastStoriesList
      (handler sampleRuntime sampleUpstream [] ''hn_top'' (Some [''limit'' \<mapsto> JNum 2])) =
      map (\<lambda>k. listed sampleRuntime (the (storyAt sampleUpstream k))) [3]"
    unfolding ks by blast
  then have stored: "lastStoriesList
      (handler sampleRuntime sampleUpstream [] ''hn_top'' (Some [''limit'' \<mapsto> JNum 2])) =
      [listed sampleRuntime (sampleItem 3 ''story'' (Some [2]))]"
    by (simp add: st)
  from records have "map commentsCount_fs (lastStoriesList
      (handler sampleRuntime sampleUpstream [] ''hn_top'' (Some [''limit'' \<mapsto> JNum 2]))) =
      map (\<lambda>k. kidsCount (the (storyAt sampleUpstream k))) [3]"
    unfolding ks by blast
  then have counts: "map commentsCount_fs (lastStoriesList
      (handler sampleRuntime sampleUpstream [] ''hn_top'' (Some [''limit'' \<mapsto> JNum 2]))) = [1]"
    by (simp add: st kc)
  from tool arg bound ks stored counts show ?thesis
    by blast
qed

lemma length_slice_le: "0 \<le> q \<Longrightarrow> of_nat (length (slice xs q)) \<le> q"
proof -
  assume nonneg: "0 \<le> q"
  then have t: "toInteger q = \<lfloor>q\<rfloor>" by (simp add: toInteger_def)
  have "length (slice xs q) \<le> nat \<lfloor>q\<rfloor>"
    using nonneg by (simp add: slice_eq t)
  then have "(of_nat (length (slice xs q)) :: rat) \<le> of_nat (nat \<lfloor>q\<rfloor>)"
    by (simp only: of_nat_le_iff)
  also have "\<dots> = of_int \<lfloor>q\<rfloor>"
    using nonneg by simp
  also have "\<dots> \<le> q" by (rule of_int_floor_le)
  finally show ?thesis .
qed

lemma prefix_slice: "prefix (slice xs q) xs"
  by (simp add: slice_def Let_def take_is_prefix)

text \<open>
  Claim C7, as the code has it. A list tool neither clamps nor rejects a numeric limit:
  whatever number is passed, the call replies with a rendering, and the items requested
  are exactly the ids of \<open>slice(0, limit)\<close> over the upstream id list, always a prefix of
  that list. With \<open>t\<close> the limit truncated towards zero, the slice is the first \<open>t\<close>
  ids when \<open>t\<close> is not negative, and all ids but the last \<open>-t\<close> when it is. So at most
  the first \<open>limit\<close> ids are fetched for a limit that is not negative, and only then.
\<close>

theorem list_tool_limit_unchecked:
  assumes "name \<in> listTools" and "argument args ''limit'' = Some (JNum q)"
  shows "requests (handler R up slot name args) =
           listEndpoint name # map ItemGet (slice (idsOf (listResponse up name)) q)
    \<and> itemRequests (requests (handler R up slot name args)) = slice (idsOf (listResponse up name)) q
    \<and> (\<exists>rendered. reply (handler R up slot name args) = Inr rendered)
    \<and> slice (idsOf (listResponse up name)) q =
        (if 0 \<le> toInteger q then take (nat (toInteger q)) (idsOf (listResponse up name))
         else take (length (idsOf (listResponse up name)) - nat (- toInteger q))
                (idsOf (listResponse up name)))
    \<and> prefix (itemRequests (requests (handler R up slot name args))) (idsOf (listResponse up name))
    \<and> (0 \<le> q \<longrightarrow> of_nat (length (itemRequests (requests (handler R up slot name args)))) \<le> q)"
proof -
  have limit: "limitOf args = q"
    using assms(2) by (rule limitOf_number)
  have issued: "requests (handler R up slot name args) =
      listEndpoint name # map ItemGet (slice (idsOf (listResponse up name)) q)"
    by (simp add: list_tool_outcome [OF assms(1)] limit)
  then have items: "itemRequests (requests (handler R up slot name args)) =
      slice (idsOf (listResponse up name)) q"
    by (simp only: itemRequests_list)
  have "\<exists>rendered. reply (handler R up slot name args) = Inr rendered"
    by (simp add: list_tool_outcome [OF assms(1)])
  moreover have "0 \<le> q \<longrightarrow>
      of_nat (length (itemRequests (requests (handler R up slot name args)))) \<le> q"
    unfolding items by (simp add: length_slice_le)
  moreover have "prefix (itemRequests (requests (handler R up slot name args)))
      (idsOf (listResponse up name))"
    unfolding items by (rule prefix_slice)
  ultimately show ?thesis
    using issued items slice_eq [of "idsOf (listResponse up name)" q] by blast
qed

theorem list_tool_limit_unchecked_witness:
  "''hn_latest'' \<in> listTools
   \<and> argument (Some [''limit'' \<mapsto> JNum 100]) ''limit'' = Some (JNum 100)
   \<and> requests (handler sampleRuntime sampleUpstream [] ''hn_latest'' (Some [''limit'' \<mapsto> JNum 100]))
       = [Newstories, ItemGet 1, ItemGet 2, ItemGet 3]"
proof -
  have tool: "''hn_latest'' \<in> listTools"
    by (simp add: listTools_def)
  have arg: "argument (Some [''limit'' \<mapsto> JNum 100]) ''limit'' = Some (JNum 100)"
    by (simp add: argument_def)
  have ids: "idsOf (listResponse sampleUpstream ''hn_latest'') = [1, 2, 3]"
    by (simp add: idsOf_def listResponse_def sampleUpstream_def)
  have "slice [1, 2, 3 :: number] 100 = [1, 2, 3]"
    by (simp add: slice_def toInteger_def)
  with list_tool_limit_unchecked [OF tool arg, of sampleRuntime sampleUpstream "[]"]
  have "requests (handler sampleRuntime sampleUpstream [] ''hn_latest''
      (Some [''limit'' \<mapsto> JNum 100])) = [Newstories, ItemGet 1, ItemGet 2, ItemGet 3]"
    unfolding ids by (simp add: listEndpoint_def)
  with tool arg show ?thesis by blast
qed

text \<open>
  Claim C7, as stated, fails for a negative limit: with the limit \<open>-1\<close> and the id list
  \<open>[1, 2, 3]\<close>, items 1 and 2 are fetched, which is not at most \<open>-1\<close> ids.
\<close>

theorem list_tool_negative_limit_counterexample:
  "itemRequests (requests
      (handler sampleRuntime sampleUpstream [] ''hn_latest'' (Some [''limit'' \<mapsto> JNum (- 1)])))
     = [1, 2]
   \<and> \<not> of_nat (length (itemRequests (requests
      (handler sampleRuntime sampleUpstream [] ''hn_latest'' (Some [''limit'' \<mapsto> JNum (- 1)])))))
      \<le> (- 1 :: number)"
proof -
  have tool: "''hn_latest'' \<in> listTools"
    by (simp add: listTools_def)
  have "limitOf (Some [''limit'' \<mapsto> JNum (- 1)]) = - 1"
    by (simp add: limitOf_def argument_def)
  moreover have "idsOf (listResponse sampleUpstream ''hn_latest'') = [1, 2, 3]"
    by (simp add: idsOf_def listResponse_def sampleUpstream_def)
  moreover have "slice [1, 2, 3 :: number] (- 1) = [1, 2]"
  proof -
    have "toInteger (- 1) = - 1"
      using toInteger_of_int [of "- 1"] by simp
    then show ?thesis by (simp add: slice_def)
  qed
  ultimately have "itemRequests (requests
      (handler sampleRuntime sampleUpstream [] ''hn_latest'' (Some [''limit'' \<mapsto> JNum (- 1)])))
     = [1, 2]"
    by (simp add: list_tool_outcome [OF tool] itemRequests_def List.map_filter_simps
        listEndpoint_def)
  then show ?thesis by simp
qed

section \<open>The session slot\<close>

text \<open>
  Claim C9. A call of any tool other than the three list tools, \<open>hn_story\<close> and
  \<open>hn_comments\<close> among them, leaves \<open>lastStoriesList\<close> as it was, whatever the call
  replies or throws. A call of a list tool replaces it by the newly formatted list, the
  one the reply renders, whatever it held before; the new list is empty when no fetched
  item is a story, as when the id-list request fails.
\<close>

theorem lastStoriesList_written_by_list_tools:
  "(name \<notin> listTools \<longrightarrow> lastStoriesList (handler R up slot name args) = slot)
   \<and> lastStoriesList (handler R up slot ''hn_story'' args) = slot
   \<and> lastStoriesList (handler R up slot ''hn_comments'' args) = slot
   \<and> (name \<in> listTools \<longrightarrow>
        lastStoriesList (handler R up slot name args) =
          map (\<lambda>k. listed R (the (storyAt up k)))
            (kept up (slice (idsOf (listResponse up name)) (limitOf args)))
        \<and> reply (handler R up slot name args) =
            Inr (formatStoriesAsText R (lastStoriesList (handler R up slot name args))))
   \<and> (name \<in> listTools \<and> kept up (slice (idsOf (listResponse up name)) (limitOf args)) = [] \<longrightarrow>
        lastStoriesList (handler R up slot name args) = [])
   \<and> (name \<in> listTools \<and> listResponse up name = Inl e \<longrightarrow>
        lastStoriesList (handler R up slot name args) = [])"
proof (intro conjI impI)
  have story: "lastStoriesList (hn_story R up slot args) = slot"
    by (simp add: hn_story_def Let_def split: option.split)
  have comments: "lastStoriesList (hn_comments R up slot args) = slot"
    by (simp add: hn_comments_def Let_def split: sum.split option.split)
  show "lastStoriesList (handler R up slot name args) = slot" if "name \<notin> listTools"
    using that story comments by (simp add: handler_def listTools_def)
  show "lastStoriesList (handler R up slot ''hn_story'' args) = slot"
    using story by (simp add: handler_def)
  show "lastStoriesList (handler R up slot ''hn_comments'' args) = slot"
    using comments by (simp add: handler_def)
  show stored: "lastStoriesList (handler R up slot name args) =
      map (\<lambda>k. listed R (the (storyAt up k)))
        (kept up (slice (idsOf (listResponse up name)) (limitOf args)))"
    if "name \<in> listTools"
    by (simp add: list_tool_outcome [OF that] map_filter_storyAt)
  show "reply (handler R up slot name args) =
      Inr (formatStoriesAsText R (lastStoriesList (handler R up slot name args)))"
    if "name \<in> listTools"
    by (simp add: list_tool_outcome [OF that])
  show "lastStoriesList (handler R up slot name args) = []"
    if "name \<in> listTools \<and> kept up (slice (idsOf (listResponse up name)) (limitOf args)) = []"
    using that stored by simp
  show "lastStoriesList (handler R up slot name args) = []"
    if "name \<in> listTools \<and> listResponse up name = Inl e"
    using that stored by (simp add: idsOf_def slice_def kept_def)
qed

theorem lastStoriesList_written_by_list_tools_witness:
  "''hn_best'' \<in> listTools
   \<and> listResponse sampleUpstream ''hn_best'' = Inl (Error ''Network Error'')
   \<and> lastStoriesList
        (handler sampleRuntime sampleUpstream [listed sampleRuntime (sampleItem 1 ''story'' None)]
           ''hn_best'' None) = []
   \<and> ''resources/list'' \<notin> listTools
   \<and> lastStoriesList
        (handler sampleRuntime sampleUpstream [listed sampleRuntime (sampleItem 1 ''story'' None)]
           ''resources/list'' None) = [listed sampleRuntime (sampleItem 1 ''story'' None)]"
proof -
  have best: "''hn_best'' \<in> listTools \<and>
      listResponse sampleUpstream ''hn_best'' = Inl (Error ''Network Error'')"
    by (simp add: listTools_def listResponse_def sampleUpstream_def)
  have other: "''resources/list'' \<notin> listTools"
    by (simp add: listTools_def)
  from best other
    lastStoriesList_written_by_list_tools [of "''hn_best''" sampleRuntime sampleUpstream
      "[listed sampleRuntime (sampleItem 1 ''story'' None)]" None "Error ''Network Error''"]
    lastStoriesList_written_by_list_tools [of "''resources/list''" sampleRuntime sampleUpstream
      "[listed sampleRuntime (sampleItem 1 ''story'' None)]" None "Error ''Network Error''"]
  show ?thesis by blast
qed

section \<open>Failures at the client boundary\<close>

lemma getComments_eq:
  "getComments up ids' =
     (Inr (List.map_filter (itemOf up) (case ids' of None \<Rightarrow> [] | Some ids \<Rightarrow> ids)),
      map ItemGet (case ids' of None \<Rightarrow> [] | Some ids \<Rightarrow> ids))"
proof -
  have "List.map_filter (\<lambda>comment. comment) (map (itemOf up) ids) = List.map_filter (itemOf up) ids"
    for ids
    by (induction ids) (simp_all add: List.map_filter_simps split: option.split)
  then show ?thesis
    unfolding getComments_def Let_def fetch_all_values fetch_all_requests
    by (simp add: List.map_filter_simps)
qed

text \<open>
  Claim C6. No client function rejects: \<open>getItemDetails\<close>, the three list fetches and
  \<open>getComments\<close> always resolve. \<open>getItemDetails\<close> resolves with \<open>null\<close> when its
  request fails, a list fetch resolves with the empty list when its id-list request
  fails (and has then issued that request only), and \<open>getComments\<close> with a missing or
  an empty id list resolves with the empty list and issues no request.
\<close>

theorem client_swallows_failures:
  "(\<forall>e. fst (getItemDetails up itemId) \<noteq> Inl e)
   \<and> (item_json up itemId = Inl err \<longrightarrow> getItemDetails up itemId = (Inr None, [ItemGet itemId]))
   \<and> (\<forall>e. fst (getLatestStories up limit) \<noteq> Inl e)
   \<and> (\<forall>e. fst (getTopStories up limit) \<noteq> Inl e)
   \<and> (\<forall>e. fst (getBestStories up limit) \<noteq> Inl e)
   \<and> (newstories_json up = Inl err \<longrightarrow> getLatestStories up limit = (Inr [], [Newstories]))
   \<and> (topstories_json up = Inl err \<longrightarrow> getTopStories up limit = (Inr [], [Topstories]))
   \<and> (beststories_json up = Inl err \<longrightarrow> getBestStories up limit = (Inr [], [Beststories]))
   \<and> (\<forall>e. fst (getComments up commentIds) \<noteq> Inl e)
   \<and> getComments up None = (Inr [], [])
   \<and> getComments up (Some []) = (Inr [], [])"
proof (intro conjI impI allI)
  show "fst (getItemDetails up itemId) \<noteq> Inl e" for e
    by (simp add: getItemDetails_eq)
  show "getItemDetails up itemId = (Inr None, [ItemGet itemId])" if "item_json up itemId = Inl err"
    using that by (simp add: getItemDetails_def)
  show "fst (getLatestStories up limit) \<noteq> Inl e" for e
    by (simp add: getLatestStories_def listFetch_eq)
  show "fst (getTopStories up limit) \<noteq> Inl e" for e
    by (simp add: getTopStories_def listFetch_eq)
  show "fst (getBestStories up limit) \<noteq> Inl e" for e
    by (simp add: getBestStories_def listFetch_eq)
  show "getLatestStories up limit = (Inr [], [Newstories])" if "newstories_json up = Inl err"
    using that by (simp add: getLatestStories_def listFetch_def)
  show "getTopStories up limit = (Inr [], [Topstories])" if "topstories_json up = Inl err"
    using that by (simp add: getTopStories_def listFetch_def)
  show "getBestStories up limit = (Inr [], [Beststories])" if "beststories_json up = Inl err"
    using that by (simp add: getBestStories_def listFetch_def)
  show "fst (getComments up commentIds) \<noteq> Inl e" for e
    by (simp add: getComments_eq)
  show "getComments up None = (Inr [], [])"
    by (simp add: getComments_def)
  show "getComments up (Some []) = (Inr [], [])"
    by (simp add: getComments_def)
qed

theorem client_swallows_failures_witness:
  "item_json sampleUpstream 4 = Inl (Error ''Request failed with status code 500'')
   \<and> getItemDetails sampleUpstream 4 = (Inr None, [ItemGet 4])
   \<and> beststories_json sampleUpstream = Inl (Error ''Network Error'')
   \<and> getBestStories sampleUpstream (Some 10) = (Inr [], [Beststories])"
proof -
  have item: "item_json sampleUpstream 4 = Inl (Error ''Request failed with status code 500'')"
    by (simp add: sampleUpstream_def)
  have best: "beststories_json sampleUpstream = Inl (Error ''Network Error'')"
    by (simp add: sampleUpstream_def)
  from item best
    client_swallows_failures [of sampleUpstream 4 "Error ''Request failed with status code 500''"
      "Some 10" "None"]
    client_swallows_failures [of sampleUpstream 4 "Error ''Network Error''" "Some 10" "None"]
  show ?thesis by blast
qed

section \<open>Errors of the story tool\<close>

lemma numberOrNaN_None:
  "(\<forall>n. argument args key \<noteq> Some (JNum n)) \<Longrightarrow> numberOrNaN args key = None"
  by (auto simp: numberOrNaN_def split: option.split json.split)

lemma numberOrNaN_Some: "argument args key = Some (JNum n) \<Longrightarrow> numberOrNaN args key = Some n"
  by (simp add: numberOrNaN_def)

text \<open>
  Claim C5. \<open>hn_story\<close> with a \<open>story_id\<close> that is not a number (missing, or of
  another type) throws \<open>Story ID must be a number\<close> and has issued no request. With a
  numeric \<open>story_id\<close> whose fetch yields no item (the request fails or the body is
  \<open>null\<close>) it throws \<open>Story with ID <id> not found\<close>, the id rendered as the
  template literal renders it, after the one item request.
\<close>

theorem hn_story_errors:
  "((\<forall>n. argument args ''story_id'' \<noteq> Some (JNum n)) \<longrightarrow>
      reply (handler R up slot ''hn_story'' args) = Inl (Error ''Story ID must be a number'')
      \<and> requests (handler R up slot ''hn_story'' args) = [])
   \<and> (argument args ''story_id'' = Some (JNum storyId) \<and> itemOf up storyId = None \<longrightarrow>
      reply (handler R up slot ''hn_story'' args) =
        Inl (Error (''Story with ID '' @ numberToString R storyId @ '' not found''))
      \<and> requests (handler R up slot ''hn_story'' args) = [ItemGet storyId])"
proof (intro conjI impI)
  assume "\<forall>n. argument args ''story_id'' \<noteq> Some (JNum n)"
  then have nan: "numberOrNaN args ''story_id'' = None"
    by (rule numberOrNaN_None)
  show "reply (handler R up slot ''hn_story'' args) = Inl (Error ''Story ID must be a number'')"
    by (simp add: handler_def hn_story_def nan)
  show "requests (handler R up slot ''hn_story'' args) = []"
    by (simp add: handler_def hn_story_def nan)
next
  assume "argument args ''story_id'' = Some (JNum storyId) \<and> itemOf up storyId = None"
  then have num: "numberOrNaN args ''story_id'' = Some storyId" and absent: "itemOf up storyId = None"
    by (simp_all add: numberOrNaN_Some)
  show "reply (handler R up slot ''hn_story'' args) =
      Inl (Error (''Story with ID '' @ numberToString R storyId @ '' not found''))"
    by (simp add: handler_def hn_story_def num getItemDetails_eq absent storyNotFound_def)
  show "requests (handler R up slot ''hn_story'' args) = [ItemGet storyId]"
    by (simp add: handler_def hn_story_def num getItemDetails_eq)
qed

theorem hn_story_errors_witness:
  "(\<forall>n. argument (Some [''story_id'' \<mapsto> JStr ''8863'']) ''story_id'' \<noteq> Some (JNum n))
   \<and> reply (handler sampleRuntime sampleUpstream [] ''hn_story'' (Some [''story_id'' \<mapsto> JStr ''8863'']))
       = Inl (Error ''Story ID must be a number'')
   \<and> argument (Some [''story_id'' \<mapsto> JNum 4]) ''story_id'' = Some (JNum 4)
   \<and> itemOf sampleUpstream 4 = None
   \<and> reply (handler sampleRuntime sampleUpstream [] ''hn_story'' (Some [''story_id'' \<mapsto> JNum 4]))
       = Inl (Error ''Story with ID 4 not found'')"
proof -
  have text_id: "\<forall>n. argument (Some [''story_id'' \<mapsto> JStr ''8863'']) ''story_id'' \<noteq> Some (JNum n)"
    by (simp add: argument_def)
  have num_id: "argument (Some [''story_id'' \<mapsto> JNum 4]) ''story_id'' = Some (JNum 4)"
    by (simp add: argument_def)
  have absent: "itemOf sampleUpstream 4 = None"
    by (simp add: itemOf_def sampleUpstream_def)
  have shown: "numberToString sampleRuntime 4 = ''4''"
    by (simp add: sampleRuntime_def decimal.simps [of 4])
  from text_id
    hn_story_errors [of "Some [''story_id'' \<mapsto> JStr ''8863'']" sampleRuntime sampleUpstream "[]" 4]
  have first: "reply (handler sampleRuntime sampleUpstream [] ''hn_story''
      (Some [''story_id'' \<mapsto> JStr ''8863''])) = Inl (Error ''Story ID must be a number'')"
    by blast
  from num_id absent
    hn_story_errors [of "Some [''story_id'' \<mapsto> JNum 4]" sampleRuntime sampleUpstream "[]" 4]
  have "reply (handler sampleRuntime sampleUpstream [] ''hn_story'' (Some [''story_id'' \<mapsto> JNum 4]))
      = Inl (Error (''Story with ID '' @ numberToString sampleRuntime 4 @ '' not found''))"
    by blast
  then have second: "reply (handler sampleRuntime sampleUpstream [] ''hn_story''
      (Some [''story_id'' \<mapsto> JNum 4])) = Inl (Error ''Story with ID 4 not found'')"
    by (simp add: shown)
  from text_id first num_id absent second show ?thesis
    by blast
qed

section \<open>The comments tool\<close>

lemma element_int:
  assumes "1 \<le> z" and "z \<le> int (length xs)"
  shows "element xs (of_int z - 1) = Some (xs ! nat (z - 1))"
proof -
  have "(of_int z - 1 :: number) = of_int (z - 1)" by simp
  then show ?thesis
    unfolding element_def using assms by (simp only: floor_of_int) auto
qed

lemma hn_comments_thrown:
  "targetStoryId slot args = Inl e \<Longrightarrow>
   hn_comments R up slot args = \<lparr>reply = Inl e, lastStoriesList = slot, requests = []\<rparr>"
  by (simp add: hn_comments_def)

lemma hn_comments_first_request:
  "targetStoryId slot args = Inr target \<Longrightarrow>
   \<exists>rest. requests (hn_comments R up slot args) = ItemGet target # rest"
  by (simp add: hn_comments_def getItemDetails_eq Let_def split: option.split)

text \<open>
  What \<open>hn_comments\<close> does with its two arguments when the index is an integer, as
  the 1-based index of the tool's description is. A numeric \<open>story_id\<close> is the target
  id, whatever \<open>story_index\<close> is, and the story request is issued for it. Without a
  numeric \<open>story_id\<close>, an integer \<open>story_index\<close> \<open>n\<close> from 1 to the length of the
  session slot makes the id of the \<open>n\<close>-th stored story the target; a \<open>story_index\<close>
  that is at most 0 or greater than the length of the slot, hence any one when the slot
  is empty, makes the call throw \<open>Invalid story index or ID provided\<close> before any
  request; and when neither argument is a number the call throws \<open>Either a story ID or
  a story index is required\<close> before any request.
\<close>

lemma hn_comments_target:
  "(argument args ''story_id'' = Some (JNum storyId) \<longrightarrow>
      targetStoryId slot args = Inr storyId
      \<and> (\<exists>rest. requests (handler R up slot ''hn_comments'' args) = ItemGet storyId # rest))
   \<and> ((\<forall>n. argument args ''story_id'' \<noteq> Some (JNum n))
       \<and> argument args ''story_index'' = Some (JNum (of_int z))
       \<and> 1 \<le> z \<and> z \<le> int (length slot) \<longrightarrow>
      targetStoryId slot args = Inr (id_fs (slot ! nat (z - 1)))
      \<and> (\<exists>rest. requests (handler R up slot ''hn_comments'' args) =
            ItemGet (id_fs (slot ! nat (z - 1))) # rest))
   \<and> ((\<forall>n. argument args ''story_id'' \<noteq> Some (JNum n))
       \<and> argument args ''story_index'' = Some (JNum q)
       \<and> (q \<le> 0 \<or> of_nat (length slot) < q) \<longrightarrow>
      reply (handler R up slot ''hn_comments'' args) =
        Inl (Error ''Invalid story index or ID provided'')
      \<and> requests (handler R up slot ''hn_comments'' args) = [])
   \<and> ((\<forall>n. argument args ''story_id'' \<noteq> Some (JNum n))
       \<and> (\<forall>n. argument args ''story_index'' \<noteq> Some (JNum n)) \<longrightarrow>
      reply (handler R up slot ''hn_comments'' args) =
        Inl (Error ''Either a story ID or a story index is required'')
      \<and> requests (handler R up slot ''hn_comments'' args) = [])"
proof (intro conjI impI)
  have tool: "handler R up slot ''hn_comments'' args = hn_comments R up slot args"
    by (simp add: handler_def)
  {
    assume "argument args ''story_id'' = Some (JNum storyId)"
    then have "numberOrNaN args ''story_id'' = Some storyId"
      by (rule numberOrNaN_Some)
    then show by_id: "targetStoryId slot args = Inr storyId"
      by (simp add: targetStoryId_def)
    show "\<exists>rest. requests (handler R up slot ''hn_comments'' args) = ItemGet storyId # rest"
      unfolding tool using by_id by (rule hn_comments_first_request)
  }
  {
    assume a: "(\<forall>n. argument args ''story_id'' \<noteq> Some (JNum n))
       \<and> argument args ''story_index'' = Some (JNum (of_int z))
       \<and> 1 \<le> z \<and> z \<le> int (length slot)"
    then have nan: "numberOrNaN args ''story_id'' = None"
      by (simp add: numberOrNaN_None)
    from a have ix: "numberOrNaN args ''story_index'' = Some (of_int z)"
      by (simp add: numberOrNaN_Some)
    from a have el: "element slot (of_int z - 1) = Some (slot ! nat (z - 1))"
      by (simp add: element_int)
    from a have range: "0 < z" "z \<le> int (length slot)"
      by simp_all
    have cmp: "(of_int z :: number) \<le> of_nat (length slot)"
      using range(2) by (metis of_int_le_iff of_int_of_nat_eq)
    show by_index: "targetStoryId slot args = Inr (id_fs (slot ! nat (z - 1)))"
      by (simp add: targetStoryId_def nan ix el range cmp)
    show "\<exists>rest. requests (handler R up slot ''hn_comments'' args) =
        ItemGet (id_fs (slot ! nat (z - 1))) # rest"
      unfolding tool using by_index by (rule hn_comments_first_request)
  }
  {
    assume a: "(\<forall>n. argument args ''story_id'' \<noteq> Some (JNum n))
       \<and> argument args ''story_index'' = Some (JNum q)
       \<and> (q \<le> 0 \<or> of_nat (length slot) < q)"
    then have nan: "numberOrNaN args ''story_id'' = None"
      by (simp add: numberOrNaN_None)
    from a have ix: "numberOrNaN args ''story_index'' = Some q"
      by (simp add: numberOrNaN_Some)
    from a have "\<not> (0 < q \<and> q \<le> of_nat (length slot))"
      by auto
    then have "targetStoryId slot args = Inl (Error ''Invalid story index or ID provided'')"
      by (auto simp add: targetStoryId_def nan ix)
    then have thrown: "hn_comments R up slot args =
        \<lparr>reply = Inl (Error ''Invalid story index or ID provided''), lastStoriesList = slot,
         requests = []\<rparr>"
      by (rule hn_comments_thrown)
    show "reply (handler R up slot ''hn_comments'' args) =
        Inl (Error ''Invalid story index or ID provided'')"
      by (simp add: tool thrown)
    show "requests (handler R up slot ''hn_comments'' args) = []"
      by (simp add: tool thrown)
  }
  {
    assume a: "(\<forall>n. argument args ''story_id'' \<noteq> Some (JNum n))
       \<and> (\<forall>n. argument args ''story_index'' \<noteq> Some (JNum n))"
    then have "numberOrNaN args ''story_id'' = None" and "numberOrNaN args ''story_index'' = None"
      by (simp_all add: numberOrNaN_None)
    then have "targetStoryId slot args =
        Inl (Error ''Either a story ID or a story index is required'')"
      by (simp add: targetStoryId_def)
    then have thrown: "hn_comments R up slot args =
        \<lparr>reply = Inl (Error ''Either a story ID or a story index is required''),
         lastStoriesList = slot, requests = []\<rparr>"
      by (rule hn_comments_thrown)
    show "reply (handler R up slot ''hn_comments'' args) =
        Inl (Error ''Either a story ID or a story index is required'')"
      by (simp add: tool thrown)
    show "requests (handler R up slot ''hn_comments'' args) = []"
      by (simp add: tool thrown)
  }
qed


text \<open>
  The range check of \<open>hn_comments\<close> has no test for an integer: a \<open>story_index\<close> that
  is not an integer and lies between 0 and the length of the slot passes it, the element
  read is \<open>undefined\<close>, and reading its \<open>id\<close> throws a \<open>TypeError\<close>.
\<close>

lemma hn_comments_fractional_index:
  assumes "\<forall>n. argument args ''story_id'' \<noteq> Some (JNum n)"
    and "argument args ''story_index'' = Some (JNum q)"
    and "0 < q" and "q \<le> of_nat (length slot)" and "of_int \<lfloor>q\<rfloor> \<noteq> q"
  shows "handler R up slot ''hn_comments'' args =
           \<lparr>reply = Inl (TypeError ''Cannot read properties of undefined (reading 'id')''),
            lastStoriesList = slot, requests = []\<rparr>"
proof -
  have nan: "numberOrNaN args ''story_id'' = None"
    using assms(1) by (rule numberOrNaN_None)
  have ix: "numberOrNaN args ''story_index'' = Some q"
    using assms(2) by (rule numberOrNaN_Some)
  have "of_int \<lfloor>q - 1\<rfloor> \<noteq> q - 1"
    using assms(5) by simp
  then have "element slot (q - 1) = None"
    by (simp add: element_def)
  then have "targetStoryId slot args =
      Inl (TypeError ''Cannot read properties of undefined (reading 'id')'')"
    using assms(3,4) by (simp add: targetStoryId_def nan ix)
  then show ?thesis
    by (simp add: handler_def hn_comments_thrown)
qed

lemma hn_comments_target_sample:
  "(\<forall>n. argument (Some [''story_index'' \<mapsto> JNum 2]) ''story_id'' \<noteq> Some (JNum n))
   \<and> argument (Some [''story_index'' \<mapsto> JNum 2]) ''story_index'' = Some (JNum (of_int 2))
   \<and> (1::int) \<le> 2 \<and> 2 \<le> int (length sampleSlot)
   \<and> targetStoryId sampleSlot (Some [''story_index'' \<mapsto> JNum 2]) = Inr 1
   \<and> argument (Some [''story_index'' \<mapsto> JNum 3]) ''story_index'' = Some (JNum 3)
   \<and> of_nat (length sampleSlot) < (3 :: number)
   \<and> reply (handler sampleRuntime sampleUpstream sampleSlot ''hn_comments''
        (Some [''story_index'' \<mapsto> JNum 3])) = Inl (Error ''Invalid story index or ID provided'')"
proof -
  have no_id2: "\<forall>n. argument (Some [''story_index'' \<mapsto> JNum 2]) ''story_id'' \<noteq> Some (JNum n)"
    by (simp add: argument_def)
  have ix2: "argument (Some [''story_index'' \<mapsto> JNum 2]) ''story_index'' = Some (JNum (of_int 2))"
    by (simp add: argument_def)
  have range2: "(1::int) \<le> 2 \<and> 2 \<le> int (length sampleSlot)"
    by (simp add: sampleSlot_def)
  have second: "id_fs (sampleSlot ! nat (2 - 1)) = 1"
    by (simp add: sampleSlot_def listed_def sampleItem_def)
  have no_id3: "\<forall>n. argument (Some [''story_index'' \<mapsto> JNum 3]) ''story_id'' \<noteq> Some (JNum n)"
    by (simp add: argument_def)
  have ix3: "argument (Some [''story_index'' \<mapsto> JNum 3]) ''story_index'' = Some (JNum 3)"
    by (simp add: argument_def)
  have range3: "of_nat (length sampleSlot) < (3 :: number)"
    by (simp add: sampleSlot_def)
  from no_id2 ix2 range2
    hn_comments_target [of "Some [''story_index'' \<mapsto> JNum 2]" 0 sampleSlot sampleRuntime
      sampleUpstream 2 0]
  have "targetStoryId sampleSlot (Some [''story_index'' \<mapsto> JNum 2]) =
      Inr (id_fs (sampleSlot ! nat (2 - 1)))"
    by blast
  then have by_index: "targetStoryId sampleSlot (Some [''story_index'' \<mapsto> JNum 2]) = Inr 1"
    by (simp only: second)
  from no_id3 ix3 range3
    hn_comments_target [of "Some [''story_index'' \<mapsto> JNum 3]" 0 sampleSlot sampleRuntime
      sampleUpstream 0 3]
  have "reply (handler sampleRuntime sampleUpstream sampleSlot ''hn_comments''
      (Some [''story_index'' \<mapsto> JNum 3])) = Inl (Error ''Invalid story index or ID provided'')"
    by blast
  with no_id2 ix2 range2 by_index ix3 range3 show ?thesis
    by blast
qed

text \<open>
  Claim C3. The claim says what the range check of \<open>hn_comments\<close> is written for: a
  numeric \<open>story_index\<close> from 1 to the length of the session slot selects a stored
  story, and any other one makes the call throw \<open>Invalid story index or ID provided\<close>,
  as the \<open>else\<close> branch of the check does. The code misses this for an index that is
  not an integer. With two stored stories, the index \<open>1/2\<close> is out of the range from 1
  to 2, yet the call throws a \<open>TypeError\<close> and not the invalid-index error; the index
  \<open>3/2\<close> is in that range, yet no target is resolved: the call throws the same
  \<open>TypeError\<close> and requests nothing.
\<close>

theorem hn_comments_fractional_index_TypeError:
  "\<not> (1 \<le> (1 / 2 :: number))
   \<and> reply (handler sampleRuntime sampleUpstream sampleSlot ''hn_comments''
        (Some [''story_index'' \<mapsto> JNum (1 / 2)]))
      = Inl (TypeError ''Cannot read properties of undefined (reading 'id')'')
   \<and> reply (handler sampleRuntime sampleUpstream sampleSlot ''hn_comments''
        (Some [''story_index'' \<mapsto> JNum (1 / 2)]))
      \<noteq> Inl (Error ''Invalid story index or ID provided'')
   \<and> 1 \<le> (3 / 2 :: number) \<and> (3 / 2 :: number) \<le> of_nat (length sampleSlot)
   \<and> reply (handler sampleRuntime sampleUpstream sampleSlot ''hn_comments''
        (Some [''story_index'' \<mapsto> JNum (3 / 2)]))
      = Inl (TypeError ''Cannot read properties of undefined (reading 'id')'')
   \<and> requests (handler sampleRuntime sampleUpstream sampleSlot ''hn_comments''
        (Some [''story_index'' \<mapsto> JNum (3 / 2)])) = []"
proof -
  have half: "\<lfloor>1 / 2 :: number\<rfloor> = 0"
    by (rule floor_unique) simp_all
  have below: "handler sampleRuntime sampleUpstream sampleSlot ''hn_comments''
        (Some [''story_index'' \<mapsto> JNum (1 / 2)]) =
      \<lparr>reply = Inl (TypeError ''Cannot read properties of undefined (reading 'id')''),
       lastStoriesList = sampleSlot, requests = []\<rparr>"
  proof (rule hn_comments_fractional_index [where q = "1 / 2"])
    show "\<forall>n. argument (Some [''story_index'' \<mapsto> JNum (1 / 2)]) ''story_id'' \<noteq> Some (JNum n)"
      by (simp add: argument_def)
    show "argument (Some [''story_index'' \<mapsto> JNum (1 / 2)]) ''story_index'' = Some (JNum (1 / 2))"
      by (simp add: argument_def)
    show "0 < (1 / 2 :: number)"
      by simp
    show "(1 / 2 :: number) \<le> of_nat (length sampleSlot)"
      by (simp add: sampleSlot_def)
    show "of_int \<lfloor>1 / 2 :: number\<rfloor> \<noteq> (1 / 2 :: number)"
      unfolding half by simp
  qed
  have three_halves: "\<lfloor>3 / 2 :: number\<rfloor> = 1"
    by (rule floor_unique) simp_all
  have between: "handler sampleRuntime sampleUpstream sampleSlot ''hn_comments''
        (Some [''story_index'' \<mapsto> JNum (3 / 2)]) =
      \<lparr>reply = Inl (TypeError ''Cannot read properties of undefined (reading 'id')''),
       lastStoriesList = sampleSlot, requests = []\<rparr>"
  proof (rule hn_comments_fractional_index [where q = "3 / 2"])
    show "\<forall>n. argument (Some [''story_index'' \<mapsto> JNum (3 / 2)]) ''story_id'' \<noteq> Some (JNum n)"
      by (simp add: argument_def)
    show "argument (Some [''story_index'' \<mapsto> JNum (3 / 2)]) ''story_index'' = Some (JNum (3 / 2))"
      by (simp add: argument_def)
    show "0 < (3 / 2 :: number)"
      by simp
    show "(3 / 2 :: number) \<le> of_nat (length sampleSlot)"
      by (simp add: sampleSlot_def)
    show "of_int \<lfloor>3 / 2 :: number\<rfloor> \<noteq> (3 / 2 :: number)"
      unfolding three_halves by simp
  qed
  have range: "1 \<le> (3 / 2 :: number) \<and> (3 / 2 :: number) \<le> of_nat (length sampleSlot)"
    by (simp add: sampleSlot_def)
  from range show ?thesis
    unfolding below between by simp
qed

text \<open>
  Claim C4. When the target of \<open>hn_comments\<close> resolves and its fetch yields an item
  whose \<open>kids\<close> is absent or empty, the reply is exactly \<open>No comments found for story
  "<title>" (ID: <id>)\<close> with the title and the id of that item, and the request for the
  item itself is the only request of the call: no child is fetched.
\<close>

theorem hn_comments_no_kids:
  assumes "targetStoryId slot args = Inr target"
    and "itemOf up target = Some story"
    and "kids_i story = None \<or> kids_i story = Some []"
  shows "reply (handler R up slot ''hn_comments'' args) =
           Inr (''No comments found for story '' @ dquote @ title_i story @ dquote @
                '' (ID: '' @ numberToString R (id_i story) @ '')'')
         \<and> requests (handler R up slot ''hn_comments'' args) = [ItemGet target]"
  using assms
  by (auto simp add: handler_def hn_comments_def getItemDetails_eq noCommentsFound_def)

theorem hn_comments_no_kids_witness:
  "targetStoryId [] (Some [''story_id'' \<mapsto> JNum 1]) = Inr 1
   \<and> itemOf sampleUpstream 1 = Some (sampleItem 1 ''story'' None)
   \<and> kids_i (sampleItem 1 ''story'' None) = None
   \<and> reply (handler sampleRuntime sampleUpstream [] ''hn_comments'' (Some [''story_id'' \<mapsto> JNum 1]))
       = Inr (''No comments found for story '' @ dquote @ ''Show HN'' @ dquote @ '' (ID: 1)'')
   \<and> requests (handler sampleRuntime sampleUpstream [] ''hn_comments'' (Some [''story_id'' \<mapsto> JNum 1]))
       = [ItemGet 1]"
proof -
  have target: "targetStoryId [] (Some [''story_id'' \<mapsto> JNum 1]) = Inr 1"
    by (simp add: targetStoryId_def numberOrNaN_def argument_def)
  have story: "itemOf sampleUpstream 1 = Some (sampleItem 1 ''story'' None)"
    by (simp add: itemOf_def sampleUpstream_def)
  have no_kids: "kids_i (sampleItem 1 ''story'' None) = None"
    by (simp add: sampleItem_def)
  have shown: "numberToString sampleRuntime (id_i (sampleItem 1 ''story'' None)) = ''1''"
    by (simp add: sampleRuntime_def sampleItem_def decimal.simps [of "Suc 0"])
  have title: "title_i (sampleItem 1 ''story'' None) = ''Show HN''"
    by (simp add: sampleItem_def)
  from no_kids have "kids_i (sampleItem 1 ''story'' None) = None \<or>
      kids_i (sampleItem 1 ''story'' None) = Some []"
    by simp
  from hn_comments_no_kids [OF target story this, of sampleRuntime]
  have "reply (handler sampleRuntime sampleUpstream [] ''hn_comments'' (Some [''story_id'' \<mapsto> JNum 1]))
       = Inr (''No comments found for story '' @ dquote @ ''Show HN'' @ dquote @ '' (ID: 1)'')
     \<and> requests (handler sampleRuntime sampleUpstream [] ''hn_comments'' (Some [''story_id'' \<mapsto> JNum 1]))
       = [ItemGet 1]"
    unfolding shown title by simp
  with target story no_kids show ?thesis
    by blast
qed

end
